theory Spec2Isabelle
  imports Complex_Main "HOL-Library.Char_ord" "HOL-Library.List_Lexorder" "HOL-Library.Multiset"
begin

section \<open>Stellar Official POS: the sale transaction engine of \<^verbatim>\<open>pos_app.py\<close>\<close>

text \<open>
  The program is a single Streamlit script over an SQLite file. Its state is the database
  (tables \<^verbatim>\<open>products\<close>, \<^verbatim>\<open>customers\<close>, \<^verbatim>\<open>sales\<close>, \<^verbatim>\<open>sale_items\<close>) and the
  per-session \<^verbatim>\<open>st.session_state\<close> (cart, selected product, user, invoice flags).
  Every definition of a button handler below is the body of one
  \<^verbatim>\<open>if st.button(...):\<close> block of the script; the values the page has computed
  before it reaches the block (widget inputs, the clock) are the handler's parameters, and
  the handler returns what it reports together with the state it leaves.

  Money columns are SQLite \<^verbatim>\<open>REAL\<close> and Python \<^verbatim>\<open>float\<close>; they are modelled by exact
  reals, so the statements are about the formulas the code computes, not about rounding.
  Quantities and stock are Python integers, modelled by \<^typ>\<open>int\<close>.
\<close>

subsection \<open>Text: \<^verbatim>\<open>str.strip\<close>\<close>

text \<open>
  A text is kept as the bytes of its UTF-8 form. \<^verbatim>\<open>str.strip()\<close> removes the
  whitespace characters at both ends of a text. These are the code points 9 to 13, 28 to
  32, U+0085, U+00A0, U+1680, U+2000 to U+200A, U+2028, U+2029, U+202F, U+205F and
  U+3000: in UTF-8 a single byte, the two bytes C2 85 and C2 A0, or one of the three-byte
  forms E1 9A 80, E2 80 80 to E2 80 8A, E2 80 A8, E2 80 A9, E2 80 AF, E2 81 9F and
  E3 80 80.
\<close>

definition space1 :: "char \<Rightarrow> bool" where
  "space1 a = (let n = (of_char a :: nat) in (9 \<le> n \<and> n \<le> 13) \<or> (28 \<le> n \<and> n \<le> 32))"

definition space2 :: "char \<Rightarrow> char \<Rightarrow> bool" where
  "space2 a b =
     ((of_char a :: nat) = 0xC2 \<and> ((of_char b :: nat) = 0x85 \<or> (of_char b :: nat) = 0xA0))"

definition space3 :: "char \<Rightarrow> char \<Rightarrow> char \<Rightarrow> bool" where
  "space3 a b c =
     (let x = (of_char a :: nat); y = (of_char b :: nat); z = (of_char c :: nat)
      in (x = 0xE1 \<and> y = 0x9A \<and> z = 0x80) \<or>
         (x = 0xE2 \<and> y = 0x80 \<and> ((0x80 \<le> z \<and> z \<le> 0x8A) \<or> z = 0xA8 \<or> z = 0xA9 \<or> z = 0xAF)) \<or>
         (x = 0xE2 \<and> y = 0x81 \<and> z = 0x9F) \<or>
         (x = 0xE3 \<and> y = 0x80 \<and> z = 0x80))"

text \<open>Whitespace characters are dropped from the front as long as one is there.\<close>

fun lstrip :: "string \<Rightarrow> string" where
  "lstrip (a # b # c # rest) =
     (if space1 a then lstrip (b # c # rest)
      else if space2 a b then lstrip (c # rest)
      else if space3 a b c then lstrip rest
      else a # b # c # rest)"
| "lstrip [a, b] = (if space1 a then lstrip [b] else if space2 a b then [] else [a, b])"
| "lstrip [a] = (if space1 a then [] else [a])"
| "lstrip [] = []"

text \<open>
  The same from the back, on the reversed bytes: a lead byte C2, E1, E2 or E3 starts a
  character, so the last two or three bytes that spell a whitespace character are one.
\<close>

fun rstrip_rev :: "string \<Rightarrow> string" where
  "rstrip_rev (c # b # a # rest) =
     (if space1 c then rstrip_rev (b # a # rest)
      else if space2 b c then rstrip_rev (a # rest)
      else if space3 a b c then rstrip_rev rest
      else c # b # a # rest)"
| "rstrip_rev [b, a] = (if space1 b then rstrip_rev [a] else if space2 a b then [] else [b, a])"
| "rstrip_rev [a] = (if space1 a then [] else [a])"
| "rstrip_rev [] = []"

definition strip :: "string \<Rightarrow> string" where
  "strip s = rev (rstrip_rev (rev (lstrip s)))"

subsection \<open>Clock values and their text forms\<close>

text \<open>
  \<^verbatim>\<open>datetime.date\<close> and its subclass \<^verbatim>\<open>datetime.datetime\<close> (naive local time, as
  \<^verbatim>\<open>datetime.now()\<close> returns it).
\<close>

record date =
  year :: nat
  month :: nat
  day :: nat

record datetime = date +
  hour :: nat
  minute :: nat
  second :: nat
  microsecond :: nat

definition is_leap :: "nat \<Rightarrow> bool" where
  "is_leap y = (y mod 4 = 0 \<and> (y mod 100 \<noteq> 0 \<or> y mod 400 = 0))"

definition days_in_month :: "nat \<Rightarrow> nat \<Rightarrow> nat" where
  "days_in_month y m =
     (if m = 2 then (if is_leap y then 29 else 28)
      else if m = 4 \<or> m = 6 \<or> m = 9 \<or> m = 11 then 30 else 31)"

text \<open>
  The values the library can produce. The year is kept to four digits from 1000 on:
  below 1000 \<^verbatim>\<open>strftime('%Y')\<close> is platform dependent, and the clock never reads
  such a year.
\<close>

definition valid_date :: "'a date_scheme \<Rightarrow> bool" where
  "valid_date d =
     (1000 \<le> year d \<and> year d \<le> 9999 \<and> 1 \<le> month d \<and> month d \<le> 12 \<and>
      1 \<le> day d \<and> day d \<le> days_in_month (year d) (month d))"

definition valid_datetime :: "datetime \<Rightarrow> bool" where
  "valid_datetime t =
     (valid_date t \<and> hour t < 24 \<and> minute t < 60 \<and> second t < 60 \<and> microsecond t < 1000000)"

text \<open>
  A decimal digit, and the \<^verbatim>\<open>%0wd\<close> form of a number below \<open>10 ^ w\<close>: exactly \<open>w\<close>
  digits, zeros on the left.
\<close>

definition digit :: "nat \<Rightarrow> char" where
  "digit n = char_of (48 + n mod 10)"

primrec zero_pad :: "nat \<Rightarrow> nat \<Rightarrow> string" where
  "zero_pad 0 n = []"
| "zero_pad (Suc w) n = zero_pad w (n div 10) @ [digit n]"

text \<open>\<^verbatim>\<open>strftime('%Y%m%d%H%M%S')\<close>\<close>

definition strftime_compact :: "datetime \<Rightarrow> string" where
  "strftime_compact t =
     zero_pad 4 (year t) @ zero_pad 2 (month t) @ zero_pad 2 (day t) @
     zero_pad 2 (hour t) @ zero_pad 2 (minute t) @ zero_pad 2 (second t)"

text \<open>\<^verbatim>\<open>date.isoformat()\<close>: \<^verbatim>\<open>YYYY-MM-DD\<close>\<close>

definition date_isoformat :: "'a date_scheme \<Rightarrow> string" where
  "date_isoformat d =
     zero_pad 4 (year d) @ ''-'' @ zero_pad 2 (month d) @ ''-'' @ zero_pad 2 (day d)"

text \<open>
  \<^verbatim>\<open>datetime.isoformat()\<close>: \<^verbatim>\<open>YYYY-MM-DDTHH:MM:SS\<close>, followed by \<^verbatim>\<open>.ffffff\<close> only
  when the microsecond is not zero.
\<close>

definition isoformat :: "datetime \<Rightarrow> string" where
  "isoformat t =
     date_isoformat t @ ''T'' @ zero_pad 2 (hour t) @ '':'' @ zero_pad 2 (minute t) @ '':'' @
     zero_pad 2 (second t) @
     (if microsecond t = 0 then [] else ''.'' @ zero_pad 6 (microsecond t))"

text \<open>
  SQLite's \<^verbatim>\<open>DATE(x)\<close> for the ISO text \<open>x\<close> of a clock value, as \<^verbatim>\<open>date.c\<close> of
  SQLite 3.46 computes it. The text is parsed into its fields; the seconds with their
  fraction are rounded to the millisecond, half up, into the Julian day number. When the
  day of the month is above 28 the date is computed back from the Julian day number, so
  that a time of day which the rounding has taken to 24:00:00.000 gives the next calendar
  day; otherwise the date is the one parsed. The result is NULL (\<open>None\<close>) when the Julian
  day number is past the end of the year 9999.
\<close>

definition rounds_to_midnight :: "datetime \<Rightarrow> bool" where
  "rounds_to_midnight t =
     (hour t = 23 \<and> minute t = 59 \<and> second t = 59 \<and> 999500 \<le> microsecond t)"

definition next_day :: "datetime \<Rightarrow> date" where
  "next_day t =
     (if day t < days_in_month (year t) (month t)
      then \<lparr>year = year t, month = month t, day = day t + 1\<rparr>
      else if month t < 12 then \<lparr>year = year t, month = month t + 1, day = 1\<rparr>
      else \<lparr>year = year t + 1, month = 1, day = 1\<rparr>)"

definition sql_date :: "datetime \<Rightarrow> string option" where
  "sql_date t =
     (if 28 < day t \<and> rounds_to_midnight t
      then (if year t = 9999 \<and> month t = 12 \<and> day t = 31 then None
            else Some (date_isoformat (next_day t)))
      else Some (date_isoformat t))"

text \<open>
  Elapsed time between two clock readings, as the library's datetime subtraction counts
  it: the proleptic Gregorian ordinal of the day, then microseconds.
\<close>

definition days_before_year :: "nat \<Rightarrow> nat" where
  "days_before_year y = (let p = y - 1 in p * 365 + p div 4 - p div 100 + p div 400)"

definition days_before_month :: "nat \<Rightarrow> nat \<Rightarrow> nat" where
  "days_before_month y m = (\<Sum>k\<leftarrow>[1..<m]. days_in_month y k)"

definition toordinal :: "'a date_scheme \<Rightarrow> nat" where
  "toordinal d = days_before_year (year d) + days_before_month (year d) (month d) + day d"

definition to_microseconds :: "datetime \<Rightarrow> nat" where
  "to_microseconds t =
     (((toordinal t * 24 + hour t) * 60 + minute t) * 60 + second t) * 1000000 + microsecond t"

subsection \<open>The database\<close>

text \<open>
  One record per table row, with the columns of \<^verbatim>\<open>init_db\<close>. \<^verbatim>\<open>products.code\<close> is
  the primary key, so the table is a map from the code to the other columns. The other
  tables are lists of rows in insertion order with their \<^verbatim>\<open>AUTOINCREMENT\<close> counters.
  \<^verbatim>\<open>sales.created_at\<close> is a text column; its only writer stores
  \<^verbatim>\<open>datetime.now().isoformat()\<close>, so a row keeps the clock value and the queries
  below read the column as that text: \<^const>\<open>isoformat\<close> where the text is compared,
  \<^const>\<open>sql_date\<close> where \<^verbatim>\<open>DATE()\<close> is applied to it.
\<close>

record product =
  p_name :: string
  p_category :: string
  p_size :: string
  p_cost_price :: real
  p_price :: real
  p_stock :: int
  p_description :: string

record customer =
  cu_id :: nat
  cu_name :: string
  cu_mobile :: string

record sale =
  s_id :: nat
  s_invoice_no :: string
  s_user :: string
  s_customer_id :: "nat option"
  s_total :: real
  s_total_cost :: real
  s_created_at :: datetime

record sale_item =
  si_id :: nat
  si_sale_id :: nat
  si_product_code :: string
  si_name :: string
  si_size :: string
  si_price :: real
  si_cost_price :: real
  si_qty :: int
  si_total :: real

record database =
  products :: "string \<rightharpoonup> product"
  customers :: "customer list"
  sales :: "sale list"
  sale_items :: "sale_item list"
  seq_customers :: nat
  seq_sales :: nat
  seq_sale_items :: nat

subsection \<open>The session\<close>

text \<open>An entry of \<^verbatim>\<open>st.session_state.cart\<close>: a dict of plain values.\<close>

record cart_line =
  c_product_code :: string
  c_name :: string
  c_size :: string
  c_price :: real
  c_cost_price :: real
  c_qty :: int
  c_total :: real

text \<open>
  \<^verbatim>\<open>st.session_state.selected_product\<close>: \<^verbatim>\<open>dict(row)\<close> of a row of
  \<^verbatim>\<open>SELECT code,name,price,cost_price,stock,size,description FROM products\<close>, copied
  when the product was found or picked from the list.
\<close>

record selection =
  sel_code :: string
  sel_name :: string
  sel_price :: real
  sel_cost_price :: real
  sel_stock :: int
  sel_size :: string
  sel_description :: string

text \<open>
  The whole state: the database file and the session. Of the logged-in user only the
  name is kept; the document bytes kept for the download buttons are left out.
\<close>

record app_state =
  db :: database
  cart :: "cart_line list"
  selected_product :: "selection option"
  user :: "string option"
  invoice_ready :: bool
  last_invoice_no :: "string option"

text \<open>What a handler reports when it does not do its work.\<close>

datatype error =
  InsufficientStock string
  | NotEnoughStock
  | IntegrityError
  | ProvideCodeAndName
  | EnterCode
  | EnterInvoiceNumber
  | ProductNotListed

subsection \<open>Products page\<close>

text \<open>
  ``Save Product'': \<^verbatim>\<open>INSERT OR REPLACE INTO products\<close> with the stripped texts, after
  the check that code and name are not blank. ``Delete Product'':
  \<^verbatim>\<open>DELETE FROM products WHERE code=?\<close>.
\<close>

definition save_product ::
  "string \<Rightarrow> string \<Rightarrow> string \<Rightarrow> string \<Rightarrow> real \<Rightarrow> real \<Rightarrow> int \<Rightarrow> string \<Rightarrow> app_state
     \<Rightarrow> (error + unit) \<times> app_state" where
  "save_product code name cat size' cost_price price stock desc st =
     (if strip code = [] \<or> strip name = [] then (Inl ProvideCodeAndName, st)
      else (Inr (),
        st\<lparr>db := (db st)\<lparr>products := (products (db st))(strip code \<mapsto>
          \<lparr>p_name = strip name, p_category = strip cat, p_size = strip size',
           p_cost_price = cost_price, p_price = price, p_stock = stock,
           p_description = strip desc\<rparr>)\<rparr>\<rparr>))"

definition delete_product :: "string \<Rightarrow> app_state \<Rightarrow> (error + unit) \<times> app_state" where
  "delete_product code st =
     (if strip code = [] then (Inl EnterCode, st)
      else (Inr (), st\<lparr>db := (db st)\<lparr>products := (products (db st))(strip code := None)\<rparr>\<rparr>))"

subsection \<open>New Sale page: selection and cart\<close>

definition snapshot :: "string \<Rightarrow> product \<Rightarrow> selection" where
  "snapshot code r =
     \<lparr>sel_code = code, sel_name = p_name r, sel_price = p_price r,
      sel_cost_price = p_cost_price r, sel_stock = p_stock r, sel_size = p_size r,
      sel_description = p_description r\<rparr>"

text \<open>``Select from list'': the row with that code, copied into the session.\<close>

definition select_from_list :: "string \<Rightarrow> app_state \<Rightarrow> (error + unit) \<times> app_state" where
  "select_from_list pid st =
     (case products (db st) pid of
        None \<Rightarrow> (Inl ProductNotListed, st)
      | Some r \<Rightarrow> (Inr (), st\<lparr>selected_product := Some (snapshot pid r)\<rparr>))"

text \<open>
  ``Add to Cart''. The loop over the cart raises the quantity of the first line with the
  selected code, recomputes that line's total from the line's own price and stops
  (\<^verbatim>\<open>found\<close>); when no line has the code a new line is appended.
\<close>

fun bump_line :: "string \<Rightarrow> int \<Rightarrow> cart_line list \<Rightarrow> bool \<times> cart_line list" where
  "bump_line code qty [] = (False, [])"
| "bump_line code qty (it # rest) =
     (if c_product_code it = code
      then (True, it\<lparr>c_qty := c_qty it + qty,
                      c_total := c_price it * of_int (c_qty it + qty)\<rparr> # rest)
      else (let (found, rest') = bump_line code qty rest in (found, it # rest')))"

definition new_line :: "selection \<Rightarrow> int \<Rightarrow> cart_line" where
  "new_line selected qty =
     \<lparr>c_product_code = sel_code selected, c_name = sel_name selected,
      c_size = sel_size selected, c_price = sel_price selected,
      c_cost_price = sel_cost_price selected, c_qty = qty,
      c_total = sel_price selected * of_int qty\<rparr>"

definition cart_add :: "selection \<Rightarrow> int \<Rightarrow> cart_line list \<Rightarrow> cart_line list" where
  "cart_add selected qty c =
     (let (found, c') = bump_line (sel_code selected) qty c
      in if found then c' else c' @ [new_line selected qty])"

definition add_to_cart :: "selection \<Rightarrow> int \<Rightarrow> app_state \<Rightarrow> (error + unit) \<times> app_state" where
  "add_to_cart selected qty st =
     (if qty > sel_stock selected then (Inl NotEnoughStock, st)
      else (Inr (), st\<lparr>cart := cart_add selected qty (cart st)\<rparr>))"

text \<open>``Remove Item'', ``Clear Cart'' and, after an invoice, ``New Sale''.\<close>

definition remove_item :: "string \<Rightarrow> app_state \<Rightarrow> (error + unit) \<times> app_state" where
  "remove_item rem_code st =
     (if strip rem_code = [] then (Inl EnterCode, st)
      else (Inr (), st\<lparr>cart := filter (\<lambda>it. c_product_code it \<noteq> strip rem_code) (cart st)\<rparr>))"

definition clear_cart :: "app_state \<Rightarrow> app_state" where
  "clear_cart st = st\<lparr>cart := []\<rparr>"

definition new_sale :: "app_state \<Rightarrow> app_state" where
  "new_sale st = st\<lparr>invoice_ready := False, last_invoice_no := None, cart := []\<rparr>"

definition subtotal :: "cart_line list \<Rightarrow> real" where
  "subtotal c = (\<Sum>it\<leftarrow>c. c_total it)"

definition grand_total :: "cart_line list \<Rightarrow> real \<Rightarrow> real" where
  "grand_total c discount = max 0 (subtotal c - discount)"

subsection \<open>New Sale page: the confirm button\<close>

text \<open>
  The re-check of the stock: the cart is walked in order, each line reads its product's
  row, and the walk stops at the first line whose product has no row or less stock than
  the line's quantity. The result is that line's product code.
\<close>

fun check_stock :: "(string \<rightharpoonup> product) \<Rightarrow> cart_line list \<Rightarrow> string option" where
  "check_stock ps [] = None"
| "check_stock ps (it # rest) =
     (case ps (c_product_code it) of
        None \<Rightarrow> Some (c_product_code it)
      | Some r \<Rightarrow>
          if p_stock r < c_qty it then Some (c_product_code it) else check_stock ps rest)"

text \<open>The statements of the transaction, on the connection's working copy.\<close>

definition insert_customer :: "string \<Rightarrow> string \<Rightarrow> database \<Rightarrow> nat \<times> database" where
  "insert_customer name mobile d =
     (let i = Suc (seq_customers d)
      in (i, d\<lparr>customers := customers d @ [\<lparr>cu_id = i, cu_name = name, cu_mobile = mobile\<rparr>],
               seq_customers := i\<rparr>))"

text \<open>
  ``save customer'': a row is inserted when the name or the mobile number was typed in;
  \<^verbatim>\<open>cust_id\<close> is \<^verbatim>\<open>None\<close> otherwise.
\<close>

definition save_customer :: "string \<Rightarrow> string \<Rightarrow> database \<Rightarrow> nat option \<times> database" where
  "save_customer cust_name cust_mobile d =
     (if cust_name \<noteq> [] \<or> cust_mobile \<noteq> []
      then (let (i, d') = insert_customer (strip cust_name) (strip cust_mobile) d
            in (Some i, d'))
      else (None, d))"

text \<open>\<^verbatim>\<open>invoice_no TEXT UNIQUE\<close>: the insert raises when the number is taken.\<close>

definition insert_sale ::
  "string \<Rightarrow> string \<Rightarrow> nat option \<Rightarrow> real \<Rightarrow> real \<Rightarrow> datetime \<Rightarrow> database
     \<Rightarrow> error + nat \<times> database" where
  "insert_sale invoice_no username cust_id total' total_cost created_at d =
     (if invoice_no \<in> s_invoice_no ` set (sales d) then Inl IntegrityError
      else (let i = Suc (seq_sales d)
            in Inr (i, d\<lparr>sales := sales d @
                      [\<lparr>s_id = i, s_invoice_no = invoice_no, s_user = username,
                        s_customer_id = cust_id, s_total = total',
                        s_total_cost = total_cost, s_created_at = created_at\<rparr>],
                    seq_sales := i\<rparr>)))"

definition insert_sale_item :: "nat \<Rightarrow> cart_line \<Rightarrow> database \<Rightarrow> database" where
  "insert_sale_item sale_id it d =
     (let i = Suc (seq_sale_items d)
      in d\<lparr>sale_items := sale_items d @
             [\<lparr>si_id = i, si_sale_id = sale_id, si_product_code = c_product_code it,
               si_name = c_name it, si_size = c_size it, si_price = c_price it,
               si_cost_price = c_cost_price it, si_qty = c_qty it, si_total = c_total it\<rparr>],
           seq_sale_items := i\<rparr>)"

text \<open>\<^verbatim>\<open>UPDATE products SET stock = stock - ? WHERE code=?\<close>\<close>

definition decrement_stock :: "int \<Rightarrow> string \<Rightarrow> database \<Rightarrow> database" where
  "decrement_stock qty code d =
     (case products d code of
        None \<Rightarrow> d
      | Some r \<Rightarrow> d\<lparr>products := (products d)(code \<mapsto> r\<lparr>p_stock := p_stock r - qty\<rparr>)\<rparr>)"

fun write_lines :: "nat \<Rightarrow> cart_line list \<Rightarrow> database \<Rightarrow> database" where
  "write_lines sale_id [] d = d"
| "write_lines sale_id (it # rest) d =
     write_lines sale_id rest
       (decrement_stock (c_qty it) (c_product_code it) (insert_sale_item sale_id it d))"

definition invoice_number :: "datetime \<Rightarrow> string" where
  "invoice_number now = ''INV'' @ strftime_compact now"

text \<open>
  The handler, in its two parts. \<open>now\<^sub>1\<close> and \<open>now\<^sub>2\<close> are its two readings of the
  clock (for the invoice number and for \<^verbatim>\<open>created_at\<close>).

  The second part is everything after the stock check: the statements of the transaction
  and \<^verbatim>\<open>conn.commit()\<close>. When the insert of the sale raises, the exception leaves the
  handler before \<^verbatim>\<open>conn.commit()\<close>, so the statements made so far are never committed
  and the session is not touched. On success the session keeps the invoice number and its
  cart.
\<close>

definition commit_writes ::
  "datetime \<Rightarrow> datetime \<Rightarrow> string \<Rightarrow> string \<Rightarrow> real \<Rightarrow> app_state
     \<Rightarrow> (error + string) \<times> app_state" where
  "commit_writes now\<^sub>1 now\<^sub>2 cust_name cust_mobile discount st =
     (let invoice_no = invoice_number now\<^sub>1;
          username = (case user st of Some u \<Rightarrow> u | None \<Rightarrow> ''unknown'');
          (cust_id, d\<^sub>1) = save_customer cust_name cust_mobile (db st);
          total_cost = (\<Sum>it\<leftarrow>cart st. c_cost_price it * of_int (c_qty it))
      in case insert_sale invoice_no username cust_id (grand_total (cart st) discount)
                total_cost now\<^sub>2 d\<^sub>1 of
           Inl e \<Rightarrow> (Inl e, st)
         | Inr (sale_id, d\<^sub>2) \<Rightarrow>
             (Inr invoice_no,
              st\<lparr>db := write_lines sale_id (cart st) d\<^sub>2,
                 last_invoice_no := Some invoice_no, invoice_ready := True\<rparr>))"

text \<open>
  The whole handler: when the stock check fails it returns before any statement,
  otherwise the second part runs.
\<close>

definition confirm_sale ::
  "datetime \<Rightarrow> datetime \<Rightarrow> string \<Rightarrow> string \<Rightarrow> real \<Rightarrow> app_state
     \<Rightarrow> (error + string) \<times> app_state" where
  "confirm_sale now\<^sub>1 now\<^sub>2 cust_name cust_mobile discount st =
     (case check_stock (products (db st)) (cart st) of
        Some code \<Rightarrow> (Inl (InsufficientStock code), st)
      | None \<Rightarrow> commit_writes now\<^sub>1 now\<^sub>2 cust_name cust_mobile discount st)"

subsection \<open>Sales Record page\<close>

text \<open>
  ``Generate Report for Range'':
  \<^verbatim>\<open>SELECT ... FROM sales s LEFT JOIN customers c ON s.customer_id = c.id
  WHERE DATE(s.created_at) BETWEEN ? AND ? ORDER BY s.created_at\<close> with the ISO texts of
  the two dates. Texts compare bytewise, and a NULL date is between no two texts. A report
  row is the sale with its customer, if any.
\<close>

definition customer_of :: "database \<Rightarrow> sale \<Rightarrow> customer option" where
  "customer_of d s =
     (case s_customer_id s of
        None \<Rightarrow> None
      | Some i \<Rightarrow> find (\<lambda>c. cu_id c = i) (customers d))"

definition in_range :: "date \<Rightarrow> date \<Rightarrow> sale \<Rightarrow> bool" where
  "in_range d\<^sub>1 d\<^sub>2 s =
     (case sql_date (s_created_at s) of
        None \<Rightarrow> False
      | Some x \<Rightarrow> date_isoformat d\<^sub>1 \<le> x \<and> x \<le> date_isoformat d\<^sub>2)"

definition range_report :: "date \<Rightarrow> date \<Rightarrow> database \<Rightarrow> (sale \<times> customer option) list" where
  "range_report d\<^sub>1 d\<^sub>2 d =
     map (\<lambda>s. (s, customer_of d s))
       (sort_key (\<lambda>s. isoformat (s_created_at s)) (filter (in_range d\<^sub>1 d\<^sub>2) (sales d)))"

text \<open>
  ``Show Invoice Items'':
  \<^verbatim>\<open>SELECT * FROM sale_items WHERE sale_id = (SELECT id FROM sales WHERE invoice_no=?)\<close>
  with the stripped input, after the check that it is not blank. The scalar subquery is the
  id of the first sale with that number, or NULL, which equals no \<^verbatim>\<open>sale_id\<close>.
\<close>

definition sale_items_query :: "string \<Rightarrow> database \<Rightarrow> sale_item list" where
  "sale_items_query invoice_no d =
     (case find (\<lambda>s. s_invoice_no s = invoice_no) (sales d) of
        None \<Rightarrow> []
      | Some s \<Rightarrow> filter (\<lambda>it. si_sale_id it = s_id s) (sale_items d))"

definition show_invoice_items :: "string \<Rightarrow> database \<Rightarrow> error + sale_item list" where
  "show_invoice_items inv' d =
     (if strip inv' = [] then Inl EnterInvoiceNumber else Inr (sale_items_query (strip inv') d))"

subsection \<open>Bootstrap: \<^verbatim>\<open>init_db\<close> and \<^verbatim>\<open>seed_products\<close>\<close>

text \<open>The demo rows \<^verbatim>\<open>seed_products\<close> inserts into an empty \<^verbatim>\<open>products\<close> table.\<close>

definition demo :: "(string \<times> product) list" where
  "demo =
     [(''C001'', \<lparr>p_name = ''Baby Suit - Blue'', p_category = ''Baby'', p_size = ''S'',
         p_cost_price = 800, p_price = 1200, p_stock = 10,
         p_description = ''Soft cotton baby suit''\<rparr>),
      (''C002'', \<lparr>p_name = ''Baby Suit - Pink'', p_category = ''Baby'', p_size = ''S'',
         p_cost_price = 800, p_price = 1200, p_stock = 8,
         p_description = ''Pink cotton baby suit''\<rparr>),
      (''M001'', \<lparr>p_name = ''Gents Shirt - White'', p_category = ''Gents'', p_size = ''M'',
         p_cost_price = 900, p_price = 1500, p_stock = 20,
         p_description = ''Formal shirt white''\<rparr>),
      (''M002'', \<lparr>p_name = ''Gents Shirt - Blue'', p_category = ''Gents'', p_size = ''L'',
         p_cost_price = 950, p_price = 1600, p_stock = 15,
         p_description = ''Casual blue shirt''\<rparr>),
      (''B001'', \<lparr>p_name = ''Baba Suit - Traditional'', p_category = ''Baba'', p_size = ''Free'',
         p_cost_price = 1500, p_price = 2500, p_stock = 5,
         p_description = ''Traditional style''\<rparr>),
      (''P001'', \<lparr>p_name = ''Gents Paint - Black'', p_category = ''Gents'', p_size = ''32'',
         p_cost_price = 400, p_price = 800, p_stock = 12,
         p_description = ''Formal paint black''\<rparr>)]"

definition seeded_db :: database where
  "seeded_db =
     \<lparr>products = map_of demo, customers = [], sales = [], sale_items = [],
      seq_customers = 0, seq_sales = 0, seq_sale_items = 0\<rparr>"

text \<open>The state of a fresh session of the user \<^verbatim>\<open>admin\<close> after \<^verbatim>\<open>main\<close> has set it up.\<close>

definition fresh :: app_state where
  "fresh =
     \<lparr>db = seeded_db, cart = [], selected_product = None, user = Some ''admin'',
      invoice_ready = False, last_invoice_no = None\<rparr>"

subsection \<open>Vocabulary of the statements\<close>

text \<open>
  A cart line the stock check stops at: its product has no row, or the row's stock is
  less than the line's quantity.
\<close>

definition lacks_stock :: "(string \<rightharpoonup> product) \<Rightarrow> cart_line \<Rightarrow> bool" where
  "lacks_stock ps it =
     (case ps (c_product_code it) of None \<Rightarrow> True | Some r \<Rightarrow> p_stock r < c_qty it)"

text \<open>The product codes of a cart, in cart order.\<close>

definition codes :: "cart_line list \<Rightarrow> string list" where
  "codes c = map c_product_code c"

text \<open>The quantity a cart asks of one product code.\<close>

definition asked :: "string \<Rightarrow> cart_line list \<Rightarrow> int" where
  "asked code c = (\<Sum>it\<leftarrow>c. if c_product_code it = code then c_qty it else 0)"

text \<open>What ``Add to Cart'' does to a line that is already there.\<close>

definition raise_qty :: "int \<Rightarrow> cart_line \<Rightarrow> cart_line" where
  "raise_qty qty it =
     it\<lparr>c_qty := c_qty it + qty, c_total := c_price it * of_int (c_qty it + qty)\<rparr>"

text \<open>
  A clock value whose \<^verbatim>\<open>DATE()\<close> is its own calendar date: the day of the month is at
  most 28, or the time of day is before the last half millisecond of the day.
\<close>

definition date_kept :: "datetime \<Rightarrow> bool" where
  "date_kept t = (day t \<le> 28 \<or> \<not> rounds_to_midnight t)"

text \<open>Calendar order of dates and chronological order of clock values, field by field.\<close>

definition date_le :: "'a date_scheme \<Rightarrow> 'b date_scheme \<Rightarrow> bool" where
  "date_le a b =
     (year a < year b \<or> (year a = year b \<and>
       (month a < month b \<or> (month a = month b \<and> day a \<le> day b))))"

definition same_date :: "'a date_scheme \<Rightarrow> 'b date_scheme \<Rightarrow> bool" where
  "same_date a b = (year a = year b \<and> month a = month b \<and> day a = day b)"

definition time_le :: "datetime \<Rightarrow> datetime \<Rightarrow> bool" where
  "time_le a b =
     (hour a < hour b \<or> (hour a = hour b \<and>
       (minute a < minute b \<or> (minute a = minute b \<and>
         (second a < second b \<or> (second a = second b \<and> microsecond a \<le> microsecond b))))))"

definition datetime_le :: "datetime \<Rightarrow> datetime \<Rightarrow> bool" where
  "datetime_le a b = (if same_date a b then time_le a b else date_le a b)"

subsection \<open>Example states\<close>

definition noon :: datetime where
  "noon = \<lparr>year = 2024, month = 1, day = 15, hour = 12, minute = 0, second = 0, microsecond = 0\<rparr>"

text \<open>A cart line for the seeded product \<^verbatim>\<open>C001\<close>, as ``Add to Cart'' builds it.\<close>

definition c001_line :: "int \<Rightarrow> cart_line" where
  "c001_line qty =
     \<lparr>c_product_code = ''C001'', c_name = ''Baby Suit - Blue'', c_size = ''S'',
      c_price = 1200, c_cost_price = 800, c_qty = qty, c_total = 1200 * of_int qty\<rparr>"

text \<open>Two pieces of \<^verbatim>\<open>C001\<close> are left and three are in the cart.\<close>

definition two_left :: app_state where
  "two_left =
     fresh\<lparr>db := seeded_db\<lparr>products := (map_of demo)(''C001'' \<mapsto>
               \<lparr>p_name = ''Baby Suit - Blue'', p_category = ''Baby'', p_size = ''S'',
                p_cost_price = 800, p_price = 1200, p_stock = 2,
                p_description = ''Soft cotton baby suit''\<rparr>)\<rparr>,
           cart := [c001_line 3]\<rparr>"

text \<open>Three pieces of \<^verbatim>\<open>C001\<close> in the cart of a fresh session, ten in stock.\<close>

definition three_in_cart :: app_state where
  "three_in_cart = fresh\<lparr>cart := [c001_line 3]\<rparr>"

text \<open>Stale carts: \<^verbatim>\<open>M001\<close> was deleted after its line was added.\<close>

definition m001_line :: "int \<Rightarrow> cart_line" where
  "m001_line qty =
     \<lparr>c_product_code = ''M001'', c_name = ''Gents Shirt - White'', c_size = ''M'',
      c_price = 1500, c_cost_price = 900, c_qty = qty, c_total = 1500 * of_int qty\<rparr>"

definition m001_deleted :: app_state where
  "m001_deleted =
     fresh\<lparr>db := seeded_db\<lparr>products := (map_of demo)(''M001'' := None)\<rparr>,
           cart := [c001_line 3, m001_line 1]\<rparr>"

definition short_then_deleted :: app_state where
  "short_then_deleted =
     fresh\<lparr>db := seeded_db\<lparr>products := (map_of demo)(''M001'' := None)\<rparr>,
           cart := [c001_line 11, m001_line 1]\<rparr>"

text \<open>The rows of \<^verbatim>\<open>C001\<close> and \<^verbatim>\<open>M001\<close> as ``Select from list'' copies them.\<close>

definition c001_selected :: selection where
  "c001_selected =
     \<lparr>sel_code = ''C001'', sel_name = ''Baby Suit - Blue'', sel_price = 1200,
      sel_cost_price = 800, sel_stock = 10, sel_size = ''S'',
      sel_description = ''Soft cotton baby suit''\<rparr>"

definition m001_selected :: selection where
  "m001_selected =
     \<lparr>sel_code = ''M001'', sel_name = ''Gents Shirt - White'', sel_price = 1500,
      sel_cost_price = 900, sel_stock = 20, sel_size = ''M'',
      sel_description = ''Formal shirt white''\<rparr>"

text \<open>The state after the sale of the three pieces, at noon, with a discount of 600.\<close>

definition after_sale :: app_state where
  "after_sale = snd (confirm_sale noon noon [] [] 600 three_in_cart)"

text \<open>One second past noon; the cart is still there after the sale.\<close>

definition one_past_noon :: datetime where
  "one_past_noon = noon\<lparr>second := 1\<rparr>"

text \<open>
  A ledger of five sales, not in chronological order: 1 February, 31 January just before
  midnight, 31 December, 15 January at noon, 1 January at midnight.
\<close>

definition sale_at :: "nat \<Rightarrow> datetime \<Rightarrow> sale" where
  "sale_at i t =
     \<lparr>s_id = i, s_invoice_no = invoice_number t, s_user = ''admin'', s_customer_id = None,
      s_total = 3000, s_total_cost = 2400, s_created_at = t\<rparr>"

definition ledger :: database where
  "ledger =
     seeded_db\<lparr>sales :=
       [sale_at 1 \<lparr>year = 2024, month = 2, day = 1, hour = 0, minute = 0, second = 0, microsecond = 0\<rparr>,
        sale_at 2 \<lparr>year = 2024, month = 1, day = 31, hour = 23, minute = 59, second = 59, microsecond = 500000\<rparr>,
        sale_at 3 \<lparr>year = 2023, month = 12, day = 31, hour = 23, minute = 59, second = 59, microsecond = 0\<rparr>,
        sale_at 4 noon,
        sale_at 5 \<lparr>year = 2024, month = 1, day = 1, hour = 0, minute = 0, second = 0, microsecond = 0\<rparr>],
       seq_sales := 5\<rparr>"

definition jan_1 :: date where
  "jan_1 = \<lparr>year = 2024, month = 1, day = 1\<rparr>"

definition jan_31 :: date where
  "jan_31 = \<lparr>year = 2024, month = 1, day = 31\<rparr>"

text \<open>
  One piece of \<^verbatim>\<open>C001\<close> is left, and it is in the cart: the session state of each of
  two cashiers who have both added the last piece.
\<close>

definition last_piece :: app_state where
  "last_piece =
     fresh\<lparr>db := seeded_db\<lparr>products := (map_of demo)(''C001'' \<mapsto>
               \<lparr>p_name = ''Baby Suit - Blue'', p_category = ''Baby'', p_size = ''S'',
                p_cost_price = 800, p_price = 1200, p_stock = 1,
                p_description = ''Soft cotton baby suit''\<rparr>)\<rparr>,
           cart := [c001_line 1]\<rparr>"




text \<open>
  The invoice number of the sale made at noon, between a no-break space (U+00A0) and an
  em space (U+2003), and a no-break space alone, as their UTF-8 bytes.
\<close>

definition padded_invoice :: string where
  "padded_invoice =
     [CHR 0xC2, CHR 0xA0] @ ''INV20240115120000'' @ [CHR 0xE2, CHR 0x80, CHR 0x83]"

definition no_break_space :: string where
  "no_break_space = [CHR 0xC2, CHR 0xA0]"

section \<open>Properties\<close>

subsection \<open>The stock check\<close>

lemma check_stock_find:
  "check_stock ps c = map_option c_product_code (find (lacks_stock ps) c)"
  by (induction c) (auto simp: lacks_stock_def split: option.splits)

text \<open>
  C1. When some cart line asks for more than its product's current stock, the confirm
  handler reports \<open>InsufficientStock\<close> for the product code of the first line, in cart
  order, that the stock check stops at, and returns the state it was given: database
  (sales, sale items, customers, every product's stock) and session are unchanged.
\<close>

theorem confirm_sale_insufficient_stock:
  assumes "\<exists>it\<in>set (cart st). \<exists>r. products (db st) (c_product_code it) = Some r \<and> p_stock r < c_qty it"
  shows "\<exists>first. find (lacks_stock (products (db st))) (cart st) = Some first \<and>
           confirm_sale now\<^sub>1 now\<^sub>2 cust_name cust_mobile discount st =
             (Inl (InsufficientStock (c_product_code first)), st)"
proof -
  from assms obtain it where "it \<in> set (cart st)" "lacks_stock (products (db st)) it"
    by (auto simp: lacks_stock_def)
  then obtain first where f: "find (lacks_stock (products (db st))) (cart st) = Some first"
    by (cases "find (lacks_stock (products (db st))) (cart st)") (auto simp: find_None_iff)
  then have "check_stock (products (db st)) (cart st) = Some (c_product_code first)"
    by (simp add: check_stock_find)
  then show ?thesis using f by (simp add: confirm_sale_def)
qed

theorem confirm_sale_insufficient_stock_witness:
  "(\<exists>it\<in>set (cart two_left). \<exists>r. products (db two_left) (c_product_code it) = Some r \<and> p_stock r < c_qty it) \<and>
   confirm_sale noon noon [] [] 0 two_left = (Inl (InsufficientStock ''C001''), two_left) \<and>
   map_option p_stock (products (db (snd (confirm_sale noon noon [] [] 0 two_left))) ''C001'') = Some 2 \<and>
   sales (db (snd (confirm_sale noon noon [] [] 0 two_left))) = []"
proof -
  have h: "\<exists>it\<in>set (cart two_left). \<exists>r. products (db two_left) (c_product_code it) = Some r \<and> p_stock r < c_qty it"
    by (simp add: two_left_def fresh_def seeded_db_def c001_line_def)
  from confirm_sale_insufficient_stock [OF h, of noon noon "[]" "[]" 0]
  obtain first where f: "find (lacks_stock (products (db two_left))) (cart two_left) = Some first"
    and r: "confirm_sale noon noon [] [] 0 two_left = (Inl (InsufficientStock (c_product_code first)), two_left)"
    by blast
  from f have "first = c001_line 3"
    by (simp add: two_left_def fresh_def seeded_db_def lacks_stock_def c001_line_def split: if_splits)
  with r have r': "confirm_sale noon noon [] [] 0 two_left = (Inl (InsufficientStock ''C001''), two_left)"
    by (simp add: c001_line_def)
  show ?thesis using h r' by (simp add: two_left_def fresh_def seeded_db_def)
qed

subsection \<open>A commit that succeeds\<close>

lemma save_customer_frame:
  "sales (snd (save_customer n m d)) = sales d"
  "products (snd (save_customer n m d)) = products d"
  "sale_items (snd (save_customer n m d)) = sale_items d"
  "seq_sales (snd (save_customer n m d)) = seq_sales d"
  "seq_sale_items (snd (save_customer n m d)) = seq_sale_items d"
  by (simp_all add: save_customer_def insert_customer_def Let_def)

lemma write_lines_frame:
  "sales (write_lines i c d) = sales d"
  "customers (write_lines i c d) = customers d"
  "seq_sales (write_lines i c d) = seq_sales d"
  "seq_customers (write_lines i c d) = seq_customers d"
  by (induction c arbitrary: d)
     (simp_all add: decrement_stock_def insert_sale_item_def Let_def split: option.splits)

lemma confirm_sale_Inr:
  assumes "confirm_sale n\<^sub>1 n\<^sub>2 cn cm disc st = (Inr invoice, st')"
  shows "check_stock (products (db st)) (cart st) = None"
    and "invoice = invoice_number n\<^sub>1"
    and "invoice_number n\<^sub>1 \<notin> s_invoice_no ` set (sales (db st))"
    and "st' = st\<lparr>db := write_lines (Suc (seq_sales (db st))) (cart st)
            ((snd (save_customer cn cm (db st)))
              \<lparr>sales := sales (db st) @
                 [\<lparr>s_id = Suc (seq_sales (db st)), s_invoice_no = invoice_number n\<^sub>1,
                   s_user = (case user st of Some u \<Rightarrow> u | None \<Rightarrow> ''unknown''),
                   s_customer_id = fst (save_customer cn cm (db st)),
                   s_total = grand_total (cart st) disc,
                   s_total_cost = (\<Sum>it\<leftarrow>cart st. c_cost_price it * of_int (c_qty it)),
                   s_created_at = n\<^sub>2\<rparr>],
               seq_sales := Suc (seq_sales (db st))\<rparr>),
          last_invoice_no := Some (invoice_number n\<^sub>1), invoice_ready := True\<rparr>"
  using assms
  by (auto simp: confirm_sale_def commit_writes_def insert_sale_def Let_def split_beta
      save_customer_frame
      split: option.splits if_splits)

lemma confirm_sale_ok:
  assumes "check_stock (products (db st)) (cart st) = None"
    and "invoice_number n\<^sub>1 \<notin> s_invoice_no ` set (sales (db st))"
  shows "\<exists>st'. confirm_sale n\<^sub>1 n\<^sub>2 cn cm disc st = (Inr (invoice_number n\<^sub>1), st')"
  using assms
  by (auto simp: confirm_sale_def commit_writes_def insert_sale_def Let_def split_beta
      save_customer_frame
      split: option.splits if_splits)

lemma invoice_number_noon: "invoice_number noon = ''INV20240115120000''"
  by code_simp

lemma invoice_number_one_past_noon: "invoice_number one_past_noon = ''INV20240115120001''"
  by code_simp

lemma ok3: "check_stock (products (db three_in_cart)) (cart three_in_cart) = None"
  by (simp add: three_in_cart_def fresh_def seeded_db_def demo_def c001_line_def)


text \<open>
  C3. A commit that succeeds appends one sale row; its total is
  \<open>max 0 (sum of the cart lines' totals - discount)\<close> and its total cost is the sum of
  \<open>cost_price * qty\<close> over the cart lines. A discount above the subtotal is no error: the
  total is 0. (No bound on the discount is needed.)
\<close>

theorem confirm_sale_totals:
  assumes "confirm_sale now\<^sub>1 now\<^sub>2 cust_name cust_mobile discount st = (Inr invoice, st')"
  shows "\<exists>s. sales (db st') = sales (db st) @ [s] \<and> s_invoice_no s = invoice \<and>
           s_total s = max 0 ((\<Sum>it\<leftarrow>cart st. c_total it) - discount) \<and>
           s_total_cost s = (\<Sum>it\<leftarrow>cart st. c_cost_price it * of_int (c_qty it)) \<and>
           ((\<Sum>it\<leftarrow>cart st. c_total it) < discount \<longrightarrow> s_total s = 0)"
  using confirm_sale_Inr(2,4) [OF assms]
  by (simp add: write_lines_frame save_customer_frame grand_total_def subtotal_def)

theorem confirm_sale_totals_witness:
  "(\<exists>st'. confirm_sale noon noon [] [] 600 three_in_cart = (Inr ''INV20240115120000'', st') \<and>
      map s_total (sales (db st')) = [3000] \<and> map s_total_cost (sales (db st')) = [2400]) \<and>
   (\<exists>st'. confirm_sale noon noon [] [] 5000 three_in_cart = (Inr ''INV20240115120000'', st') \<and>
      (\<Sum>it\<leftarrow>cart three_in_cart. c_total it) < 5000 \<and> map s_total (sales (db st')) = [0])"
proof -
  have fresh_sales: "sales (db three_in_cart) = []"
    by (simp add: three_in_cart_def fresh_def seeded_db_def)
  have sums: "(\<Sum>it\<leftarrow>cart three_in_cart. c_total it) = 3600"
    "(\<Sum>it\<leftarrow>cart three_in_cart. c_cost_price it * of_int (c_qty it)) = 2400"
    by (simp_all add: three_in_cart_def c001_line_def)
  have free: "invoice_number noon \<notin> s_invoice_no ` set (sales (db three_in_cart))"
    by (simp add: fresh_sales)
  from confirm_sale_ok [OF ok3 free, of noon "[]" "[]" 600]
  obtain st\<^sub>1 where c1: "confirm_sale noon noon [] [] 600 three_in_cart = (Inr (invoice_number noon), st\<^sub>1)"
    by blast
  from confirm_sale_ok [OF ok3 free, of noon "[]" "[]" 5000]
  obtain st\<^sub>2 where c2: "confirm_sale noon noon [] [] 5000 three_in_cart = (Inr (invoice_number noon), st\<^sub>2)"
    by blast
  from confirm_sale_totals [OF c1] have "map s_total (sales (db st\<^sub>1)) = [3000]"
      "map s_total_cost (sales (db st\<^sub>1)) = [2400]"
    by (auto simp: fresh_sales sums)
  moreover from confirm_sale_totals [OF c2] have "map s_total (sales (db st\<^sub>2)) = [0]"
    by (auto simp: fresh_sales sums)
  ultimately show ?thesis using c1 c2 by (simp add: invoice_number_noon sums)
qed

text \<open>
  C9. A commit that succeeds leaves the session's cart as it was; the cart is emptied by
  the separate ``New Sale'' button.
\<close>

theorem confirm_sale_keeps_cart:
  assumes "confirm_sale now\<^sub>1 now\<^sub>2 cust_name cust_mobile discount st = (Inr invoice, st')"
  shows "cart st' = cart st \<and> cart (new_sale st') = []"
  using confirm_sale_Inr(4) [OF assms] by (simp add: new_sale_def)

theorem confirm_sale_keeps_cart_witness:
  "\<exists>st'. confirm_sale noon noon [] [] 600 three_in_cart = (Inr ''INV20240115120000'', st') \<and>
     cart st' = [c001_line 3] \<and> cart (new_sale st') = []"
proof -
  have free: "invoice_number noon \<notin> s_invoice_no ` set (sales (db three_in_cart))"
    by (simp add: three_in_cart_def fresh_def seeded_db_def)
  from confirm_sale_ok [OF ok3 free, of noon "[]" "[]" 600]
  obtain st\<^sub>1 where c1: "confirm_sale noon noon [] [] 600 three_in_cart = (Inr (invoice_number noon), st\<^sub>1)"
    by blast
  from confirm_sale_keeps_cart [OF c1] have "cart st\<^sub>1 = [c001_line 3]" "cart (new_sale st\<^sub>1) = []"
    by (simp_all add: three_in_cart_def)
  then show ?thesis using c1 by (simp add: invoice_number_noon)
qed

subsection \<open>Deleted products\<close>

text \<open>
  C10, as stated, fails: with eleven of \<^verbatim>\<open>C001\<close> (ten in stock) in front of the line of
  the deleted \<^verbatim>\<open>M001\<close>, the handler reports \<^verbatim>\<open>C001\<close>, not the deleted product's code.
\<close>

theorem confirm_sale_missing_product_counterexample:
  "(\<exists>it\<in>set (cart short_then_deleted).
      c_product_code it = ''M001'' \<and> products (db short_then_deleted) (c_product_code it) = None) \<and>
   confirm_sale noon noon [] [] 0 short_then_deleted =
     (Inl (InsufficientStock ''C001''), short_then_deleted) \<and>
   confirm_sale noon noon [] [] 0 short_then_deleted \<noteq>
     (Inl (InsufficientStock ''M001''), short_then_deleted)"
  by (simp add: confirm_sale_def short_then_deleted_def fresh_def seeded_db_def demo_def
      c001_line_def m001_line_def)

lemma find_after_clean_prefix:
  "\<forall>x\<in>set xs. \<not> P x \<Longrightarrow> P y \<Longrightarrow> find P (xs @ y # ys) = Some y"
  by (induction xs) auto

text \<open>
  C10, amended. A cart with a line whose product has no row makes the confirm handler
  report \<open>InsufficientStock\<close> and return the state it was given; a missing row counts as
  too little stock, there is no other error and no crash. The code reported is the one of
  the first line the stock check stops at: the missing product's own code when no line
  before it is itself missing or short of stock.
\<close>

theorem confirm_sale_missing_product:
  assumes "cart st = before @ it # after"
    and "products (db st) (c_product_code it) = None"
  shows "\<exists>code. confirm_sale now\<^sub>1 now\<^sub>2 cust_name cust_mobile discount st =
             (Inl (InsufficientStock code), st) \<and>
           ((\<forall>x\<in>set before. \<not> lacks_stock (products (db st)) x) \<longrightarrow> code = c_product_code it)"
proof -
  have l: "lacks_stock (products (db st)) it"
    using assms(2) by (simp add: lacks_stock_def)
  then obtain first where f: "find (lacks_stock (products (db st))) (cart st) = Some first"
    using assms(1) by (cases "find (lacks_stock (products (db st))) (cart st)") (auto simp: find_None_iff)
  have "first = it" if "\<forall>x\<in>set before. \<not> lacks_stock (products (db st)) x"
    using find_after_clean_prefix [OF that l, of after] f assms(1) by simp
  moreover have "confirm_sale now\<^sub>1 now\<^sub>2 cust_name cust_mobile discount st =
      (Inl (InsufficientStock (c_product_code first)), st)"
    using f by (simp add: confirm_sale_def check_stock_find)
  ultimately show ?thesis by blast
qed

theorem confirm_sale_missing_product_witness:
  "cart m001_deleted = [c001_line 3] @ m001_line 1 # [] \<and>
   products (db m001_deleted) (c_product_code (m001_line 1)) = None \<and>
   \<not> lacks_stock (products (db m001_deleted)) (c001_line 3) \<and>
   confirm_sale noon noon [] [] 0 m001_deleted = (Inl (InsufficientStock ''M001''), m001_deleted)"
proof -
  have c: "cart m001_deleted = [c001_line 3] @ m001_line 1 # []"
    by (simp add: m001_deleted_def)
  have n: "products (db m001_deleted) (c_product_code (m001_line 1)) = None"
    by (simp add: m001_deleted_def m001_line_def)
  have b: "\<not> lacks_stock (products (db m001_deleted)) (c001_line 3)"
    by (simp add: m001_deleted_def lacks_stock_def c001_line_def fresh_def seeded_db_def demo_def)
  from confirm_sale_missing_product [OF c n, of noon noon "[]" "[]" 0] b
  have "confirm_sale noon noon [] [] 0 m001_deleted =
      (Inl (InsufficientStock (c_product_code (m001_line 1))), m001_deleted)"
    by auto
  then show ?thesis using c n b by (simp add: m001_line_def)
qed

subsection \<open>Stock after a commit\<close>

lemma asked_simps [simp]:
  "asked code [] = 0"
  "asked code (it # rest) = (if c_product_code it = code then c_qty it else 0) + asked code rest"
  by (simp_all add: asked_def)

lemma products_insert_sale_item [simp]:
  "products (insert_sale_item i it d) = products d"
  by (simp add: insert_sale_item_def Let_def)

lemma products_decrement_stock:
  "products (decrement_stock q k d) code =
     (if code = k then map_option (\<lambda>r. r\<lparr>p_stock := p_stock r - q\<rparr>) (products d k)
      else products d code)"
  by (simp add: decrement_stock_def split: option.splits)

lemma products_write_lines:
  "products (write_lines i c d) code =
     map_option (\<lambda>r. r\<lparr>p_stock := p_stock r - asked code c\<rparr>) (products d code)"
proof (induction c arbitrary: d)
  case Nil
  show ?case by (simp add: option.map_ident)
next
  case (Cons it rest)
  show ?case
    by (simp add: Cons.IH products_decrement_stock option.map_comp comp_def
        diff_diff_eq add.commute)
qed

lemma asked_absent: "code \<notin> set (codes c) \<Longrightarrow> asked code c = 0"
  by (induction c) (auto simp: codes_def)

lemma asked_within_stock:
  assumes "distinct (codes c)" and "check_stock ps c = None" and "ps code = Some r"
    and "code \<in> set (codes c)"
  shows "asked code c \<le> p_stock r"
  using assms
  by (induction c) (auto simp: codes_def asked_absent [unfolded codes_def] split: option.splits if_splits)

text \<open>
  C2, as stated, fails. Each session runs the script on a connection of its own, and
  nothing keeps the stock check of one session and its writes together. Two cashiers have
  the last piece of \<^verbatim>\<open>C001\<close> in their carts and confirm: both stock checks read a stock
  of 1 and pass, then the first session writes and commits, then the second. The second
  decrement does not fail, it trusts the check made before the first session wrote: both
  commits succeed and the stock is -1.
\<close>

theorem stale_stock_check_counterexample:
  "check_stock (products (db last_piece)) (cart last_piece) = None \<and>
   (\<exists>st\<^sub>1 st\<^sub>2.
      commit_writes noon noon [] [] 0 last_piece = (Inr ''INV20240115120000'', st\<^sub>1) \<and>
      map_option p_stock (products (db st\<^sub>1) ''C001'') = Some 0 \<and>
      commit_writes one_past_noon one_past_noon [] [] 0 (last_piece\<lparr>db := db st\<^sub>1\<rparr>) =
        (Inr ''INV20240115120001'', st\<^sub>2) \<and>
      map_option p_stock (products (db st\<^sub>2) ''C001'') = Some (- 1))"
  by (simp add: commit_writes_def invoice_number_noon invoice_number_one_past_noon
      save_customer_def insert_sale_def insert_sale_item_def decrement_stock_def
      grand_total_def subtotal_def last_piece_def fresh_def seeded_db_def c001_line_def Let_def)

text \<open>
  C2, amended. The decrement does not check anything itself; what keeps the stock from
  going negative is the stock check before the first write, as long as no other session
  writes between that check and the writes. For the handler run as a whole on a cart with
  at most one line per product code, a commit that succeeds takes from every product
  exactly what the cart asks of it, and a stock that was not negative before is not
  negative after.
\<close>

theorem confirm_sale_stock_nonneg:
  assumes "confirm_sale now\<^sub>1 now\<^sub>2 cust_name cust_mobile discount st = (Inr invoice, st')"
    and "distinct (codes (cart st))"
    and "products (db st) code = Some r"
  shows "\<exists>r'. products (db st') code = Some r' \<and>
           p_stock r' = p_stock r - asked code (cart st) \<and>
           (0 \<le> p_stock r \<longrightarrow> 0 \<le> p_stock r')"
proof -
  note ok = confirm_sale_Inr [OF assms(1)]
  have "products (db st') code =
      Some (r\<lparr>p_stock := p_stock r - asked code (cart st)\<rparr>)"
    by (subst ok(4)) (simp add: products_write_lines save_customer_frame assms(3))
  moreover have "0 \<le> p_stock r - asked code (cart st)" if "0 \<le> p_stock r"
  proof (cases "code \<in> set (codes (cart st))")
    case True
    from asked_within_stock [OF assms(2) ok(1) assms(3) True] show ?thesis by simp
  next
    case False
    then show ?thesis using that by (simp add: asked_absent)
  qed
  ultimately show ?thesis by simp
qed

theorem confirm_sale_stock_nonneg_witness:
  "\<exists>st'. confirm_sale noon noon [] [] 600 three_in_cart = (Inr ''INV20240115120000'', st') \<and>
     distinct (codes (cart three_in_cart)) \<and>
     map_option p_stock (products (db three_in_cart) ''C001'') = Some 10 \<and>
     map_option p_stock (products (db st') ''C001'') = Some 7"
proof -
  have free: "invoice_number noon \<notin> s_invoice_no ` set (sales (db three_in_cart))"
    by (simp add: three_in_cart_def fresh_def seeded_db_def)
  from confirm_sale_ok [OF ok3 free, of noon "[]" "[]" 600]
  obtain st\<^sub>1 where c1: "confirm_sale noon noon [] [] 600 three_in_cart = (Inr (invoice_number noon), st\<^sub>1)"
    by blast
  have d: "distinct (codes (cart three_in_cart))"
    by (simp add: three_in_cart_def codes_def)
  have p: "products (db three_in_cart) ''C001'' = Some (the (map_of demo ''C001''))"
    by (simp add: three_in_cart_def fresh_def seeded_db_def demo_def)
  have s: "p_stock (the (map_of demo ''C001'')) = 10" "asked ''C001'' (cart three_in_cart) = 3"
    by (simp_all add: demo_def three_in_cart_def c001_line_def)
  from confirm_sale_stock_nonneg [OF c1 d p]
  have "map_option p_stock (products (db st\<^sub>1) ''C001'') = Some 7"
    by (auto simp: s)
  then show ?thesis using c1 d p s by (auto simp: invoice_number_noon)
qed

subsection \<open>The cart\<close>

lemma bump_line_absent:
  "code \<notin> set (codes c) \<Longrightarrow> bump_line code qty c = (False, c)"
  by (induction c) (auto simp: codes_def)

lemma bump_line_present:
  "code \<in> set (codes c) \<Longrightarrow> distinct (codes c) \<Longrightarrow>
   bump_line code qty c =
     (True, map (\<lambda>it. if c_product_code it = code then raise_qty qty it else it) c)"
proof (induction c)
  case Nil
  then show ?case by (simp add: codes_def)
next
  case (Cons it rest)
  show ?case
  proof (cases "c_product_code it = code")
    case True
    with Cons.prems have "code \<notin> set (codes rest)" by (auto simp: codes_def)
    then have "map (\<lambda>it. if c_product_code it = code then raise_qty qty it else it) rest = rest"
      by (induction rest) (auto simp: codes_def)
    with True show ?thesis by (simp add: raise_qty_def)
  next
    case False
    with Cons show ?thesis by (auto simp: codes_def)
  qed
qed

lemma codes_map_raise:
  "codes (map (\<lambda>it. if c_product_code it = code then raise_qty qty it else it) c) = codes c"
  by (induction c) (auto simp: codes_def raise_qty_def)

text \<open>
  C5, as stated, fails for an add of more than the selected product's stock: the handler
  answers ``Not enough stock'' and the line's quantity stays what it was.
\<close>

theorem add_to_cart_counterexample:
  "(1::int) \<le> 11 \<and> sel_code c001_selected \<in> set (codes (cart three_in_cart)) \<and>
   map c_qty (cart three_in_cart) = [3] \<and>
   add_to_cart c001_selected 11 three_in_cart = (Inl NotEnoughStock, three_in_cart) \<and>
   map c_qty (cart (snd (add_to_cart c001_selected 11 three_in_cart))) = [3]"
  by (simp add: add_to_cart_def c001_selected_def three_in_cart_def codes_def c001_line_def)

text \<open>
  C5, amended. In a cart with at most one line per product code, ``Add to Cart'' of a
  quantity above the selected product's stock is refused and changes nothing. Any other
  add succeeds and keeps the cart at one line per code: when a line with the selected
  code exists, its quantity goes up by the quantity added and its total becomes its own
  price times the new quantity, every other line staying as it is; otherwise one line is
  appended that copies the code, name, size, price and cost of the selection.
\<close>

theorem add_to_cart_one_line_per_code:
  assumes "distinct (codes (cart st))"
  shows "(sel_stock selected < qty \<longrightarrow> add_to_cart selected qty st = (Inl NotEnoughStock, st)) \<and>
         (qty \<le> sel_stock selected \<longrightarrow>
           (\<exists>st'. add_to_cart selected qty st = (Inr (), st') \<and> distinct (codes (cart st')) \<and>
              cart st' =
                (if sel_code selected \<in> set (codes (cart st))
                 then map (\<lambda>it. if c_product_code it = sel_code selected
                                 then it\<lparr>c_qty := c_qty it + qty,
                                         c_total := c_price it * of_int (c_qty it + qty)\<rparr>
                                 else it) (cart st)
                 else cart st @
                   [\<lparr>c_product_code = sel_code selected, c_name = sel_name selected,
                     c_size = sel_size selected, c_price = sel_price selected,
                     c_cost_price = sel_cost_price selected, c_qty = qty,
                     c_total = sel_price selected * of_int qty\<rparr>])))"
proof (cases "sel_code selected \<in> set (codes (cart st))")
  case True
  from bump_line_present [OF True assms, of qty] show ?thesis
    using True assms
    by (simp add: add_to_cart_def cart_add_def codes_map_raise)
       (simp add: raise_qty_def)
next
  case False
  from bump_line_absent [OF False, of qty] show ?thesis
    using False assms
    by (simp add: add_to_cart_def cart_add_def new_line_def) (simp add: codes_def)
qed

theorem add_to_cart_one_line_per_code_witness:
  "distinct (codes (cart three_in_cart)) \<and>
   (2::int) \<le> sel_stock c001_selected \<and> (2::int) \<le> sel_stock m001_selected \<and>
   (\<exists>st'. add_to_cart c001_selected 2 three_in_cart = (Inr (), st') \<and> cart st' = [c001_line 5]) \<and>
   (\<exists>st'. add_to_cart m001_selected 2 three_in_cart = (Inr (), st') \<and>
      cart st' = [c001_line 3, m001_line 2])"
proof -
  have d: "distinct (codes (cart three_in_cart))"
    by (simp add: three_in_cart_def codes_def)
  have a: "\<exists>st'. add_to_cart c001_selected 2 three_in_cart = (Inr (), st') \<and> cart st' = [c001_line 5]"
    using add_to_cart_one_line_per_code [OF d, of c001_selected 2]
    by (auto simp: c001_selected_def three_in_cart_def codes_def c001_line_def)
  have b: "\<exists>st'. add_to_cart m001_selected 2 three_in_cart = (Inr (), st') \<and>
      cart st' = [c001_line 3, m001_line 2]"
    using add_to_cart_one_line_per_code [OF d, of m001_selected 2]
    by (auto simp: m001_selected_def three_in_cart_def codes_def c001_line_def m001_line_def)
  show ?thesis using d a b by (simp add: c001_selected_def m001_selected_def)
qed

lemma after_sale_tables:
  "sales (db after_sale) =
     [\<lparr>s_id = 1, s_invoice_no = ''INV20240115120000'', s_user = ''admin'',
       s_customer_id = None, s_total = 3000, s_total_cost = 2400, s_created_at = noon\<rparr>]"
  "sale_items (db after_sale) =
     [\<lparr>si_id = 1, si_sale_id = 1, si_product_code = ''C001'', si_name = ''Baby Suit - Blue'',
       si_size = ''S'', si_price = 1200, si_cost_price = 800, si_qty = 3, si_total = 3600\<rparr>]"
  "cart after_sale = [c001_line 3]"
  by (simp_all add: after_sale_def confirm_sale_def commit_writes_def ok3 invoice_number_noon save_customer_def
      insert_sale_def insert_sale_item_def decrement_stock_def grand_total_def subtotal_def
      three_in_cart_def fresh_def seeded_db_def demo_def c001_line_def Let_def)

subsection \<open>Catalog changes and the cart\<close>

text \<open>
  C4. ``Save Product'' (the upsert), whatever it writes and for whatever code, leaves
  every cart line as it is: the line found for a product code before is found after, with
  the same price and quantity, and its total is still that price times the quantity.
\<close>

theorem save_product_keeps_cart_lines:
  assumes "find (\<lambda>x. c_product_code x = k) (cart st) = Some it"
    and "c_total it = c_price it * of_int (c_qty it)"
  shows "\<exists>r st'. save_product code name cat size' cost_price price stock desc st = (r, st') \<and>
           (\<exists>it'. find (\<lambda>x. c_product_code x = k) (cart st') = Some it' \<and>
              c_price it' = c_price it \<and> c_qty it' = c_qty it \<and>
              c_total it' = c_price it * of_int (c_qty it))"
  using assms by (simp add: save_product_def)

theorem save_product_keeps_cart_lines_witness:
  "\<exists>st'. save_product ''C001'' ''Baby Suit - Blue'' ''Baby'' ''S'' 800 2400 10 [] three_in_cart = (Inr (), st') \<and>
     map_option p_price (products (db three_in_cart) ''C001'') = Some 1200 \<and>
     map_option p_price (products (db st') ''C001'') = Some 2400 \<and>
     (\<exists>it'. find (\<lambda>x. c_product_code x = ''C001'') (cart st') = Some it' \<and>
        c_price it' = 1200 \<and> c_qty it' = 3 \<and> c_total it' = 3600)"
proof -
  have f: "find (\<lambda>x. c_product_code x = ''C001'') (cart three_in_cart) = Some (c001_line 3)"
    by (simp add: three_in_cart_def c001_line_def)
  have t: "c_total (c001_line 3) = c_price (c001_line 3) * of_int (c_qty (c001_line 3))"
    by (simp add: c001_line_def)
  have s: "strip ''C001'' = ''C001''" "strip ''Baby Suit - Blue'' = ''Baby Suit - Blue''"
    by (simp_all add: strip_def space1_def space2_def space3_def)
  from save_product_keeps_cart_lines [OF f t, of "''C001''" "''Baby Suit - Blue''" "''Baby''" "''S''" 800 2400 10 "[]"]
  obtain r st' where
    sp: "save_product ''C001'' ''Baby Suit - Blue'' ''Baby'' ''S'' 800 2400 10 [] three_in_cart = (r, st')"
    and l: "\<exists>it'. find (\<lambda>x. c_product_code x = ''C001'') (cart st') = Some it' \<and>
        c_price it' = c_price (c001_line 3) \<and> c_qty it' = c_qty (c001_line 3) \<and>
        c_total it' = c_price (c001_line 3) * of_int (c_qty (c001_line 3))"
    by blast
  from sp have r: "r = Inr ()" and st': "st' = three_in_cart\<lparr>db := (db three_in_cart)\<lparr>products := (products (db three_in_cart))(''C001'' \<mapsto>
          \<lparr>p_name = ''Baby Suit - Blue'', p_category = strip ''Baby'', p_size = strip ''S'',
           p_cost_price = 800, p_price = 2400, p_stock = 10,
           p_description = strip []\<rparr>)\<rparr>\<rparr>"
    by (auto simp: save_product_def s)
  have "map_option p_price (products (db st') ''C001'') = Some 2400"
    by (simp add: st')
  moreover have "map_option p_price (products (db three_in_cart) ''C001'') = Some 1200"
    by (simp add: three_in_cart_def fresh_def seeded_db_def demo_def)
  ultimately show ?thesis using sp r l by (auto simp: c001_line_def)
qed

subsection \<open>Invoice items\<close>

lemma find_by_distinct_key:
  "distinct (map f xs) \<Longrightarrow> s \<in> set xs \<Longrightarrow> find (\<lambda>x. f x = f s) xs = Some s"
  by (induction xs) (auto simp: image_iff)

text \<open>
  C8, as stated, fails for strings that are not stripped: no sale has the invoice number
  with a leading space, yet the lookup returns the items of the sale whose number is the
  stripped string; and the empty string gets the ``Enter invoice number'' warning, not an
  empty result.
\<close>

theorem show_invoice_items_counterexample:
  "'' INV20240115120000'' \<notin> s_invoice_no ` set (sales (db after_sale)) \<and>
   show_invoice_items '' INV20240115120000'' (db after_sale) =
     Inr [\<lparr>si_id = 1, si_sale_id = 1, si_product_code = ''C001'', si_name = ''Baby Suit - Blue'',
           si_size = ''S'', si_price = 1200, si_cost_price = 800, si_qty = 3, si_total = 3600\<rparr>] \<and>
   [] \<notin> s_invoice_no ` set (sales (db after_sale)) \<and>
   show_invoice_items [] (db after_sale) = Inl EnterInvoiceNumber"
  by (simp add: show_invoice_items_def sale_items_query_def after_sale_tables strip_def space1_def space2_def space3_def)

text \<open>
  C8, amended. The lookup works on the stripped input. A blank input is answered with
  the warning and no query. Otherwise the result is exactly the sale items whose
  \<^verbatim>\<open>sale_id\<close> is the id of the sale with the stripped invoice number, and the empty
  list when no sale has that number. (Invoice numbers are unique in \<^verbatim>\<open>sales\<close>, by the
  column's \<^verbatim>\<open>UNIQUE\<close> constraint.)
\<close>

theorem show_invoice_items_correct:
  assumes "distinct (map s_invoice_no (sales d))"
  shows "(strip inv' = [] \<longrightarrow> show_invoice_items inv' d = Inl EnterInvoiceNumber) \<and>
         (strip inv' \<noteq> [] \<longrightarrow>
            (\<forall>s\<in>set (sales d). s_invoice_no s = strip inv' \<longrightarrow>
               show_invoice_items inv' d =
                 Inr (filter (\<lambda>it. si_sale_id it = s_id s) (sale_items d))) \<and>
            (strip inv' \<notin> s_invoice_no ` set (sales d) \<longrightarrow> show_invoice_items inv' d = Inr []))"
proof -
  have "sale_items_query k d = filter (\<lambda>it. si_sale_id it = s_id s) (sale_items d)"
    if "s \<in> set (sales d)" and "s_invoice_no s = k" for s k
    using find_by_distinct_key [OF assms that(1)] that(2) by (auto simp: sale_items_query_def)
  moreover have "sale_items_query k d = []" if "k \<notin> s_invoice_no ` set (sales d)" for k
  proof -
    from that have "find (\<lambda>s. s_invoice_no s = k) (sales d) = None"
      by (auto simp: find_None_iff)
    then show ?thesis by (simp add: sale_items_query_def)
  qed
  ultimately show ?thesis by (auto simp: show_invoice_items_def)
qed

theorem show_invoice_items_correct_witness:
  "distinct (map s_invoice_no (sales (db after_sale))) \<and>
   strip padded_invoice = ''INV20240115120000'' \<and>
   ''INV20240115120000'' \<in> s_invoice_no ` set (sales (db after_sale)) \<and>
   show_invoice_items padded_invoice (db after_sale) =
     Inr [\<lparr>si_id = 1, si_sale_id = 1, si_product_code = ''C001'', si_name = ''Baby Suit - Blue'',
           si_size = ''S'', si_price = 1200, si_cost_price = 800, si_qty = 3, si_total = 3600\<rparr>] \<and>
   strip ''INV0'' = ''INV0'' \<and> ''INV0'' \<notin> s_invoice_no ` set (sales (db after_sale)) \<and>
   show_invoice_items ''INV0'' (db after_sale) = Inr [] \<and>
   strip no_break_space = [] \<and> show_invoice_items no_break_space (db after_sale) = Inl EnterInvoiceNumber"
proof -
  have d: "distinct (map s_invoice_no (sales (db after_sale)))"
    by (simp add: after_sale_tables)
  have s: "strip padded_invoice = ''INV20240115120000''" "strip ''INV0'' = ''INV0''"
      "strip no_break_space = []"
    by (simp_all add: strip_def space1_def space2_def space3_def padded_invoice_def
        no_break_space_def)
  from show_invoice_items_correct [OF d, of padded_invoice]
  have a: "show_invoice_items padded_invoice (db after_sale) =
     Inr [\<lparr>si_id = 1, si_sale_id = 1, si_product_code = ''C001'', si_name = ''Baby Suit - Blue'',
           si_size = ''S'', si_price = 1200, si_cost_price = 800, si_qty = 3, si_total = 3600\<rparr>]"
    by (simp add: s after_sale_tables)
  from show_invoice_items_correct [OF d, of "''INV0''"]
  have b: "show_invoice_items ''INV0'' (db after_sale) = Inr []"
    by (simp add: s after_sale_tables)
  from show_invoice_items_correct [OF d, of no_break_space]
  have c: "show_invoice_items no_break_space (db after_sale) = Inl EnterInvoiceNumber"
    by (simp add: s)
  show ?thesis using d s a b c by (simp add: after_sale_tables)
qed

subsection \<open>Text forms of clock values\<close>

lemma of_char_digit: "(of_char (digit n) :: nat) = 48 + n mod 10"
proof -
  have "48 + n mod 10 < 256" using mod_less_divisor [of 10 n] by linarith
  then show ?thesis by (simp add: digit_def)
qed




lemma digit_less: "digit a < digit b \<longleftrightarrow> a mod 10 < b mod 10"
  by (simp add: less_char_def of_char_digit)

lemma digit_eq: "digit a = digit b \<longleftrightarrow> a mod 10 = b mod 10"
proof
  assume "digit a = digit b"
  then have "(of_char (digit a) :: nat) = of_char (digit b)" by simp
  then show "a mod 10 = b mod 10" by (simp add: of_char_digit)
next
  assume "a mod 10 = b mod 10"
  then show "digit a = digit b" by (simp add: digit_def)
qed

lemma length_zero_pad [simp]: "length (zero_pad w n) = w"
  by (induction w arbitrary: n) simp_all


lemma append_less_same_length:
  "length xs = length ys \<Longrightarrow> (xs @ us < ys @ vs) = (xs < ys \<or> xs = ys \<and> us < vs)"
  for xs :: "'a::linorder list"
  by (induction xs ys rule: list_induct2) auto

lemma append_le_same_length:
  "length xs = length ys \<Longrightarrow> (xs @ us \<le> ys @ vs) = (xs < ys \<or> xs = ys \<and> us \<le> vs)"
  for xs :: "'a::linorder list"
  by (induction xs ys rule: list_induct2) auto

lemma lex_two_digits:
  "c < 10 \<Longrightarrow> d < 10 \<Longrightarrow> (10 * a + c < 10 * b + d) = (a < b \<or> a = b \<and> c < d)"
  for a b c d :: nat
  by arith

lemma by_last_digit:
  "(n < m) = (n div 10 < m div 10 \<or> n div 10 = m div 10 \<and> n mod 10 < m mod 10)"
  for n m :: nat
proof -
  have "(10 * (n div 10) + n mod 10 < 10 * (m div 10) + m mod 10) =
      (n div 10 < m div 10 \<or> n div 10 = m div 10 \<and> n mod 10 < m mod 10)"
    by (rule lex_two_digits) simp_all
  then show ?thesis by simp
qed

lemma eq_by_last_digit:
  "(n = m) = (n div 10 = m div 10 \<and> n mod 10 = m mod 10)"
  for n m :: nat
  by (metis div_mult_mod_eq)


lemma zero_pad_eq:
  "n < 10 ^ w \<Longrightarrow> m < 10 ^ w \<Longrightarrow> (zero_pad w n = zero_pad w m) = (n = m)"
proof (induction w arbitrary: n m)
  case 0
  then show ?case by simp
next
  case (Suc w)
  from Suc.prems have "n div 10 < 10 ^ w" "m div 10 < 10 ^ w" by auto
  from Suc.IH [OF this] show ?case
    using eq_by_last_digit [of n m] by (simp add: digit_eq)
qed

lemma zero_pad_less:
  "n < 10 ^ w \<Longrightarrow> m < 10 ^ w \<Longrightarrow> (zero_pad w n < zero_pad w m) = (n < m)"
proof (induction w arbitrary: n m)
  case 0
  then show ?case by simp
next
  case (Suc w)
  from Suc.prems have b: "n div 10 < 10 ^ w" "m div 10 < 10 ^ w" by auto
  show ?case
    using by_last_digit [of n m]
    by (simp add: append_less_same_length digit_less Suc.IH [OF b] zero_pad_eq [OF b])
qed

lemma zero_pad_le:
  "n < 10 ^ w \<Longrightarrow> m < 10 ^ w \<Longrightarrow> (zero_pad w n \<le> zero_pad w m) = (n \<le> m)"
  using zero_pad_less [of n w m] zero_pad_eq [of n w m] by (auto simp: le_less)

lemma days_in_month_le: "days_in_month y m \<le> 31"
  by (simp add: days_in_month_def)

lemma valid_date_bounds:
  assumes "valid_date d"
  shows "year d < 10 ^ 4" "month d < 10 ^ 2" "day d < 10 ^ 2"
proof -
  from assms have "year d \<le> 9999" "month d \<le> 12" "day d \<le> days_in_month (year d) (month d)"
    by (simp_all add: valid_date_def)
  with days_in_month_le [of "year d" "month d"]
  show "year d < 10 ^ 4" "month d < 10 ^ 2" "day d < 10 ^ 2" by simp_all
qed

lemma valid_datetime_bounds:
  assumes "valid_datetime t"
  shows "valid_date t" "hour t < 10 ^ 2" "minute t < 10 ^ 2" "second t < 10 ^ 2"
    "microsecond t < 10 ^ 6"
  using assms by (simp_all add: valid_datetime_def)

lemma length_date_isoformat [simp]: "length (date_isoformat d) = 10"
  by (simp add: date_isoformat_def)

lemma date_isoformat_eq:
  assumes "valid_date a" and "valid_date b"
  shows "(date_isoformat a = date_isoformat b) = same_date a b"
  using valid_date_bounds [OF assms(1)] valid_date_bounds [OF assms(2)]
  by (simp add: date_isoformat_def same_date_def zero_pad_eq)

lemma date_isoformat_less:
  assumes "valid_date a" and "valid_date b"
  shows "(date_isoformat a < date_isoformat b) = (date_le a b \<and> \<not> same_date a b)"
  using valid_date_bounds [OF assms(1)] valid_date_bounds [OF assms(2)]
  by (auto simp: date_isoformat_def same_date_def date_le_def append_less_same_length
      zero_pad_eq zero_pad_less)

lemma date_isoformat_le:
  assumes "valid_date a" and "valid_date b"
  shows "(date_isoformat a \<le> date_isoformat b) = date_le a b"
proof -
  have "same_date a b \<Longrightarrow> date_le a b"
    by (simp add: same_date_def date_le_def)
  then show ?thesis
    using date_isoformat_less [OF assms] date_isoformat_eq [OF assms]
    by (auto simp: le_less)
qed


lemma fraction_le:
  assumes "m < 10 ^ 6" and "n < 10 ^ 6"
  shows "((if m = 0 then [] else ''.'' @ zero_pad 6 m) \<le> (if n = 0 then [] else ''.'' @ zero_pad 6 n))
           = (m \<le> n)"
  using zero_pad_le [OF assms] by auto

lemma time_part_le:
  assumes "valid_datetime a" and "valid_datetime b"
  shows "(zero_pad 2 (hour a) @ '':'' @ zero_pad 2 (minute a) @ '':'' @ zero_pad 2 (second a) @
            (if microsecond a = 0 then [] else ''.'' @ zero_pad 6 (microsecond a))
          \<le> zero_pad 2 (hour b) @ '':'' @ zero_pad 2 (minute b) @ '':'' @ zero_pad 2 (second b) @
            (if microsecond b = 0 then [] else ''.'' @ zero_pad 6 (microsecond b)))
         = time_le a b"
  using valid_datetime_bounds(2-5) [OF assms(1)] valid_datetime_bounds(2-5) [OF assms(2)]
    fraction_le [of "microsecond a" "microsecond b"]
  by (simp add: time_le_def append_le_same_length zero_pad_eq zero_pad_less del: zero_pad.simps)

lemma isoformat_le:
  assumes "valid_datetime a" and "valid_datetime b"
  shows "(isoformat a \<le> isoformat b) = datetime_le a b"
proof -
  note d = valid_datetime_bounds(1) [OF assms(1)] valid_datetime_bounds(1) [OF assms(2)]
  show ?thesis
    using time_part_le [OF assms] date_isoformat_less [OF d] date_isoformat_eq [OF d]
    by (simp add: isoformat_def datetime_le_def append_le_same_length del: zero_pad.simps)
qed

lemma strftime_compact_inj:
  assumes "valid_datetime a" and "valid_datetime b"
    and "strftime_compact a = strftime_compact b"
  shows "same_date a b \<and> hour a = hour b \<and> minute a = minute b \<and> second a = second b"
proof -
  note d = valid_datetime_bounds(1) [OF assms(1)] valid_datetime_bounds(1) [OF assms(2)]
  show ?thesis
    using assms(3) valid_date_bounds [OF d(1)] valid_date_bounds [OF d(2)]
      valid_datetime_bounds(2-4) [OF assms(1)] valid_datetime_bounds(2-4) [OF assms(2)]
    by (simp add: strftime_compact_def same_date_def zero_pad_eq del: zero_pad.simps)
qed

lemma same_second_microseconds:
  assumes "same_date a b" and "hour a = hour b" and "minute a = minute b" and "second a = second b"
    and "microsecond a < 1000000" and "microsecond b < 1000000"
  shows "to_microseconds b < to_microseconds a + 1000000"
  using assms by (simp add: to_microseconds_def toordinal_def same_date_def)

subsection \<open>Invoice numbers\<close>

lemma ok_again: "check_stock (products (db after_sale)) (cart after_sale) = None"
  by (simp add: after_sale_def confirm_sale_def commit_writes_def ok3 invoice_number_noon save_customer_def
      insert_sale_def insert_sale_item_def decrement_stock_def grand_total_def subtotal_def
      three_in_cart_def fresh_def seeded_db_def demo_def c001_line_def Let_def)

lemma valid_noon: "valid_datetime noon" "valid_datetime one_past_noon"
  by (simp_all add: valid_datetime_def valid_date_def days_in_month_def noon_def one_past_noon_def)

text \<open>
  C6. The invoice number of a commit that succeeds is \<^verbatim>\<open>INV\<close> followed by the first
  clock reading of the handler as four digits of year and two digits each of month, day,
  hour, minute and second; it is the number of the sale row written and the one the
  session keeps. Hence two commits whose clock readings are at least one second apart
  get different numbers.
\<close>

theorem invoice_number_by_second:
  assumes "confirm_sale now\<^sub>1 now\<^sub>2 cust_name cust_mobile discount st = (Inr invoice, st')"
  shows "invoice = ''INV'' @ zero_pad 4 (year now\<^sub>1) @ zero_pad 2 (month now\<^sub>1) @
           zero_pad 2 (day now\<^sub>1) @ zero_pad 2 (hour now\<^sub>1) @ zero_pad 2 (minute now\<^sub>1) @
           zero_pad 2 (second now\<^sub>1) \<and>
         s_invoice_no (last (sales (db st'))) = invoice \<and>
         last_invoice_no st' = Some invoice \<and>
         (valid_datetime now\<^sub>1 \<and> valid_datetime later\<^sub>1 \<and>
          (to_microseconds now\<^sub>1 + 1000000 \<le> to_microseconds later\<^sub>1 \<or>
           to_microseconds later\<^sub>1 + 1000000 \<le> to_microseconds now\<^sub>1) \<and>
          confirm_sale later\<^sub>1 later\<^sub>2 cust_name' cust_mobile' discount' st\<^sub>2 = (Inr invoice', st\<^sub>3)
          \<longrightarrow> invoice' \<noteq> invoice)"
proof -
  note ok = confirm_sale_Inr [OF assms]
  have 1: "invoice = ''INV'' @ strftime_compact now\<^sub>1"
    using ok(2) by (simp add: invoice_number_def)
  have 2: "s_invoice_no (last (sales (db st'))) = invoice" "last_invoice_no st' = Some invoice"
    by (simp_all add: ok(4) ok(2) write_lines_frame)
  have 3: "invoice' \<noteq> invoice"
    if v: "valid_datetime now\<^sub>1" "valid_datetime later\<^sub>1"
      and apart: "to_microseconds now\<^sub>1 + 1000000 \<le> to_microseconds later\<^sub>1 \<or>
           to_microseconds later\<^sub>1 + 1000000 \<le> to_microseconds now\<^sub>1"
      and c: "confirm_sale later\<^sub>1 later\<^sub>2 cust_name' cust_mobile' discount' st\<^sub>2 = (Inr invoice', st\<^sub>3)"
  proof
    assume "invoice' = invoice"
    with confirm_sale_Inr(2) [OF c] 1
    have "strftime_compact now\<^sub>1 = strftime_compact later\<^sub>1"
      by (simp add: invoice_number_def)
    from strftime_compact_inj [OF v this]
    have s: "same_date now\<^sub>1 later\<^sub>1" "hour now\<^sub>1 = hour later\<^sub>1" "minute now\<^sub>1 = minute later\<^sub>1"
      "second now\<^sub>1 = second later\<^sub>1" by simp_all
    from v have u: "microsecond now\<^sub>1 < 1000000" "microsecond later\<^sub>1 < 1000000"
      by (simp_all add: valid_datetime_def)
    from same_second_microseconds [OF s u]
    have "to_microseconds later\<^sub>1 < to_microseconds now\<^sub>1 + 1000000" .
    moreover from s have "same_date later\<^sub>1 now\<^sub>1" "hour later\<^sub>1 = hour now\<^sub>1"
      "minute later\<^sub>1 = minute now\<^sub>1" "second later\<^sub>1 = second now\<^sub>1"
      by (simp_all add: same_date_def)
    from same_second_microseconds [OF this u(2,1)]
    have "to_microseconds now\<^sub>1 < to_microseconds later\<^sub>1 + 1000000" .
    ultimately show False using apart by linarith
  qed
  show ?thesis using 1 2 3 by (simp add: strftime_compact_def)
qed

theorem invoice_number_by_second_witness:
  "valid_datetime noon \<and> valid_datetime one_past_noon \<and>
   to_microseconds noon + 1000000 \<le> to_microseconds one_past_noon \<and>
   (\<exists>st'. confirm_sale noon noon [] [] 600 three_in_cart = (Inr ''INV20240115120000'', st')) \<and>
   (\<exists>st'. confirm_sale one_past_noon one_past_noon [] [] 600 after_sale =
      (Inr ''INV20240115120001'', st')) \<and>
   ''INV20240115120001'' \<noteq> ''INV20240115120000''"
proof -
  have free: "invoice_number noon \<notin> s_invoice_no ` set (sales (db three_in_cart))"
    by (simp add: three_in_cart_def fresh_def seeded_db_def)
  from confirm_sale_ok [OF ok3 free, of noon "[]" "[]" 600]
  obtain st\<^sub>1 where c1: "confirm_sale noon noon [] [] 600 three_in_cart = (Inr (invoice_number noon), st\<^sub>1)"
    by blast
  have free': "invoice_number one_past_noon \<notin> s_invoice_no ` set (sales (db after_sale))"
    by (simp add: after_sale_tables invoice_number_one_past_noon)
  from confirm_sale_ok [OF ok_again free', of one_past_noon "[]" "[]" 600]
  obtain st\<^sub>3 where c2: "confirm_sale one_past_noon one_past_noon [] [] 600 after_sale =
      (Inr (invoice_number one_past_noon), st\<^sub>3)"
    by blast
  have apart: "to_microseconds noon + 1000000 \<le> to_microseconds one_past_noon"
    by (simp add: to_microseconds_def toordinal_def noon_def one_past_noon_def)
  from invoice_number_by_second [OF c1, of one_past_noon one_past_noon "[]" "[]" 600 after_sale
      "invoice_number one_past_noon" st\<^sub>3]
  have "valid_datetime noon \<and> valid_datetime one_past_noon \<and>
      (to_microseconds noon + 1000000 \<le> to_microseconds one_past_noon \<or>
       to_microseconds one_past_noon + 1000000 \<le> to_microseconds noon) \<and>
      confirm_sale one_past_noon one_past_noon [] [] 600 after_sale =
        (Inr (invoice_number one_past_noon), st\<^sub>3)
      \<longrightarrow> invoice_number one_past_noon \<noteq> invoice_number noon"
    by blast
  with valid_noon apart c2 have "invoice_number one_past_noon \<noteq> invoice_number noon"
    by blast
  then show ?thesis
    using valid_noon apart c1 c2 by (auto simp: invoice_number_noon invoice_number_one_past_noon)
qed

subsection \<open>The range report\<close>

lemma sql_date_kept: "date_kept t \<Longrightarrow> sql_date t = Some (date_isoformat t)"
  by (auto simp: sql_date_def date_kept_def)

lemma in_range_iff:
  assumes "valid_date d\<^sub>1" and "valid_date d\<^sub>2" and "valid_datetime (s_created_at s)"
    and "date_kept (s_created_at s)"
  shows "in_range d\<^sub>1 d\<^sub>2 s = (date_le d\<^sub>1 (s_created_at s) \<and> date_le (s_created_at s) d\<^sub>2)"
  using date_isoformat_le [OF assms(1) valid_datetime_bounds(1) [OF assms(3)]]
    date_isoformat_le [OF valid_datetime_bounds(1) [OF assms(3)] assms(2)]
  by (simp add: in_range_def sql_date_kept [OF assms(4)])

text \<open>
  Away from the last half millisecond of the days 29 to 31 the query does what C7 says:
  for two dates and a ledger of committed sales, the range report holds exactly the sales
  whose creation date, time of day ignored, lies between the two dates, both included
  (each sale as often as the ledger has it), in ascending order of creation time. The
  query compares ISO texts; on the clock values the library produces this is the calendar
  and the chronological order.
\<close>

theorem range_report_away_from_midnight:
  assumes "valid_date d\<^sub>1" and "valid_date d\<^sub>2"
    and "\<forall>s\<in>set (sales d). valid_datetime (s_created_at s) \<and> date_kept (s_created_at s)"
  shows "mset (map fst (range_report d\<^sub>1 d\<^sub>2 d)) =
           filter_mset (\<lambda>s. date_le d\<^sub>1 (s_created_at s) \<and> date_le (s_created_at s) d\<^sub>2)
             (mset (sales d)) \<and>
         sorted_wrt datetime_le (map (s_created_at \<circ> fst) (range_report d\<^sub>1 d\<^sub>2 d))"
proof -
  let ?key = "\<lambda>s. isoformat (s_created_at s)"
  let ?hits = "filter (in_range d\<^sub>1 d\<^sub>2) (sales d)"
  have rows: "map fst (range_report d\<^sub>1 d\<^sub>2 d) = sort_key ?key ?hits"
    by (simp add: range_report_def comp_def)
  have "filter (in_range d\<^sub>1 d\<^sub>2) (sales d) =
      filter (\<lambda>s. date_le d\<^sub>1 (s_created_at s) \<and> date_le (s_created_at s) d\<^sub>2) (sales d)"
    using assms by (intro filter_cong refl) (simp add: in_range_iff)
  then have which: "mset (map fst (range_report d\<^sub>1 d\<^sub>2 d)) =
      filter_mset (\<lambda>s. date_le d\<^sub>1 (s_created_at s) \<and> date_le (s_created_at s) d\<^sub>2) (mset (sales d))"
    by (simp add: rows)
  have "sorted (map ?key (sort_key ?key ?hits))"
    by (rule sorted_sort_key)
  then have "sorted_wrt (\<lambda>a b. ?key a \<le> ?key b) (sort_key ?key ?hits)"
    by (simp add: sorted_wrt_map)
  moreover have "datetime_le (s_created_at a) (s_created_at b)"
    if "a \<in> set (sort_key ?key ?hits)" "b \<in> set (sort_key ?key ?hits)" "?key a \<le> ?key b" for a b
  proof -
    from that(1,2) assms(3) have "valid_datetime (s_created_at a)" "valid_datetime (s_created_at b)"
      by auto
    from isoformat_le [OF this] that(3) show ?thesis by simp
  qed
  ultimately have "sorted_wrt (\<lambda>a b. datetime_le (s_created_at a) (s_created_at b))
      (sort_key ?key ?hits)"
    by (rule sorted_wrt_mono_rel [rotated]) 
  then have "sorted_wrt datetime_le (map (s_created_at \<circ> fst) (range_report d\<^sub>1 d\<^sub>2 d))"
    by (simp add: sorted_wrt_map rows [symmetric] comp_def)
  with which show ?thesis by simp
qed


lemma ledger_valid:
  "\<forall>s\<in>set (sales ledger). valid_datetime (s_created_at s) \<and> date_kept (s_created_at s)"
  by (simp add: ledger_def sale_at_def noon_def valid_datetime_def valid_date_def
      days_in_month_def is_leap_def date_kept_def rounds_to_midnight_def)

lemma january_valid: "valid_date jan_1" "valid_date jan_31"
  by (simp_all add: jan_1_def jan_31_def valid_date_def days_in_month_def)

lemma ledger_hits:
  "filter (in_range jan_1 jan_31) (sales ledger) =
     [sale_at 2 \<lparr>year = 2024, month = 1, day = 31, hour = 23, minute = 59, second = 59, microsecond = 500000\<rparr>,
      sale_at 4 noon,
      sale_at 5 \<lparr>year = 2024, month = 1, day = 1, hour = 0, minute = 0, second = 0, microsecond = 0\<rparr>]"
proof -
  have "filter (in_range jan_1 jan_31) (sales ledger) =
      filter (\<lambda>s. date_le jan_1 (s_created_at s) \<and> date_le (s_created_at s) jan_31) (sales ledger)"
    using ledger_valid january_valid by (intro filter_cong refl) (simp add: in_range_iff)
  also have "\<dots> = [sale_at 2 \<lparr>year = 2024, month = 1, day = 31, hour = 23, minute = 59, second = 59, microsecond = 500000\<rparr>,
      sale_at 4 noon,
      sale_at 5 \<lparr>year = 2024, month = 1, day = 1, hour = 0, minute = 0, second = 0, microsecond = 0\<rparr>]"
    by (simp add: ledger_def sale_at_def date_le_def jan_1_def jan_31_def noon_def)
  finally show ?thesis .
qed


lemma ledger_report: "map (s_id \<circ> fst) (range_report jan_1 jan_31 ledger) = [5, 4, 2]"
proof -
  let ?t2 = "\<lparr>year = 2024, month = 1, day = 31, hour = 23, minute = 59, second = 59, microsecond = 500000\<rparr>"
  let ?t5 = "\<lparr>year = 2024, month = 1, day = 1, hour = 0, minute = 0, second = 0, microsecond = 0\<rparr>"
  have v: "valid_datetime ?t2" "valid_datetime noon" "valid_datetime ?t5"
    by (simp_all add: noon_def valid_datetime_def valid_date_def days_in_month_def)
  have "\<not> datetime_le noon ?t5" "\<not> datetime_le ?t2 ?t5" "\<not> datetime_le ?t2 noon"
    by (simp_all add: datetime_le_def same_date_def date_le_def noon_def)
  then have "\<not> isoformat noon \<le> isoformat ?t5" "\<not> isoformat ?t2 \<le> isoformat ?t5"
    "\<not> isoformat ?t2 \<le> isoformat noon"
    by (simp_all only: isoformat_le [OF v(2) v(3)] isoformat_le [OF v(1) v(3)]
        isoformat_le [OF v(1) v(2)] not_False_eq_True)
  then show ?thesis
    by (simp add: range_report_def ledger_hits sort_key_def sale_at_def)
qed

theorem range_report_away_from_midnight_witness:
  "valid_date jan_1 \<and> valid_date jan_31 \<and>
   map s_id (sales ledger) = [1, 2, 3, 4, 5] \<and>
   map (s_id \<circ> fst) (range_report jan_1 jan_31 ledger) = [5, 4, 2] \<and>
   mset (map fst (range_report jan_1 jan_31 ledger)) =
     filter_mset (\<lambda>s. date_le jan_1 (s_created_at s) \<and> date_le (s_created_at s) jan_31)
       (mset (sales ledger)) \<and>
   sorted_wrt datetime_le (map (s_created_at \<circ> fst) (range_report jan_1 jan_31 ledger))"
  using range_report_away_from_midnight [OF january_valid ledger_valid] january_valid ledger_report
  by (simp add: ledger_def sale_at_def)



end
